theory Spec2Isabelle
  imports Complex_Main "HOL-Library.Monad_Syntax" "HOL-Library.Multiset"
begin

section \<open>Request bodies and the HeartPatient schema\<close>

text \<open>
  Both services (\<^verbatim>\<open>deployment/app/main.py\<close> and \<^verbatim>\<open>docker_monitor/app/main.py\<close>)
  declare the same pydantic class \<^verbatim>\<open>HeartPatient\<close>: thirteen required fields, each
  annotated \<^verbatim>\<open>float\<close> or \<^verbatim>\<open>int\<close> and nothing else (no \<^verbatim>\<open>Field\<close> constraint, no
  validator). A request body is a JSON object, kept here as the list of its members in
  the order they were sent.

  Python floats are modelled as reals: the code only compares them with \<^verbatim>\<open>0.5\<close>,
  converts integers to them and rounds them, so no rounding error of the arithmetic is
  involved.
\<close>

datatype json = JNull | JBool bool | JInt int | JNum real | JStr string

type_synonym body = "(string \<times> json) list"

text \<open>
  Reading the JSON object gives a Python dict; of two members with the same name the
  later one wins.
\<close>

definition dict_of :: "body \<Rightarrow> string \<rightharpoonup> json" where
  "dict_of b = map_of (rev b)"

text \<open>
  How pydantic turns a JSON value into a declared \<^verbatim>\<open>int\<close> or \<^verbatim>\<open>float\<close> belongs to the
  library, not to the repository, and differs between its versions (strings, booleans,
  floats with a fractional part). It is a parameter of the model: \<open>None\<close> is a type
  error. \<open>json_numbers\<close> is the part every version agrees on: a JSON integer is an
  \<^verbatim>\<open>int\<close>, a JSON number is a \<^verbatim>\<open>float\<close>.
\<close>

record coercion =
  to_int :: "json \<Rightarrow> int option"
  to_float :: "json \<Rightarrow> real option"

fun int_of_json :: "json \<Rightarrow> int option" where
  "int_of_json (JInt i) = Some i"
| "int_of_json _ = None"

fun float_of_json :: "json \<Rightarrow> real option" where
  "float_of_json (JInt i) = Some (of_int i)"
| "float_of_json (JNum r) = Some r"
| "float_of_json _ = None"

definition json_numbers :: coercion where
  "json_numbers = \<lparr>to_int = int_of_json, to_float = float_of_json\<rparr>"

record HeartPatient =
  age :: real
  sex :: int
  cp :: int
  trestbps :: real
  chol :: real
  fbs :: int
  restecg :: int
  thalach :: real
  exang :: int
  oldpeak :: real
  slope :: int
  ca :: real
  thal :: int

datatype ftype = Int_t | Float_t

text \<open>The class body, in declaration order.\<close>

definition HeartPatient_fields :: "(string \<times> ftype) list" where
  "HeartPatient_fields =
    [(''age'', Float_t), (''sex'', Int_t), (''cp'', Int_t), (''trestbps'', Float_t),
     (''chol'', Float_t), (''fbs'', Int_t), (''restecg'', Int_t), (''thalach'', Float_t),
     (''exang'', Int_t), (''oldpeak'', Float_t), (''slope'', Int_t), (''ca'', Float_t),
     (''thal'', Int_t)]"

datatype field_error = Missing string | WrongType string

text \<open>
  pydantic checks every field on its own and reports all the failures together; a field
  fails when it is absent or when its value does not coerce to the declared type.
\<close>

fun check_field :: "coercion \<Rightarrow> (string \<rightharpoonup> json) \<Rightarrow> string \<times> ftype \<Rightarrow> field_error list" where
  "check_field c d (n, Int_t) =
     (case d n of None \<Rightarrow> [Missing n]
      | Some v \<Rightarrow> (case to_int c v of None \<Rightarrow> [WrongType n] | Some i \<Rightarrow> []))"
| "check_field c d (n, Float_t) =
     (case d n of None \<Rightarrow> [Missing n]
      | Some v \<Rightarrow> (case to_float c v of None \<Rightarrow> [WrongType n] | Some x \<Rightarrow> []))"

definition field_errors :: "coercion \<Rightarrow> (string \<rightharpoonup> json) \<Rightarrow> field_error list" where
  "field_errors c d = concat (map (check_field c d) HeartPatient_fields)"

definition get_int :: "coercion \<Rightarrow> (string \<rightharpoonup> json) \<Rightarrow> string \<Rightarrow> int option" where
  "get_int c d n = Option.bind (d n) (to_int c)"

definition get_float :: "coercion \<Rightarrow> (string \<rightharpoonup> json) \<Rightarrow> string \<Rightarrow> real option" where
  "get_float c d n = Option.bind (d n) (to_float c)"

definition HeartPatient_parse :: "coercion \<Rightarrow> (string \<rightharpoonup> json) \<Rightarrow> HeartPatient option" where
  "HeartPatient_parse c d = do {
     v1 \<leftarrow> get_float c d ''age'';
     v2 \<leftarrow> get_int c d ''sex'';
     v3 \<leftarrow> get_int c d ''cp'';
     v4 \<leftarrow> get_float c d ''trestbps'';
     v5 \<leftarrow> get_float c d ''chol'';
     v6 \<leftarrow> get_int c d ''fbs'';
     v7 \<leftarrow> get_int c d ''restecg'';
     v8 \<leftarrow> get_float c d ''thalach'';
     v9 \<leftarrow> get_int c d ''exang'';
     v10 \<leftarrow> get_float c d ''oldpeak'';
     v11 \<leftarrow> get_int c d ''slope'';
     v12 \<leftarrow> get_float c d ''ca'';
     v13 \<leftarrow> get_int c d ''thal'';
     Some \<lparr>age = v1, sex = v2, cp = v3, trestbps = v4, chol = v5, fbs = v6,
           restecg = v7, thalach = v8, exang = v9, oldpeak = v10, slope = v11,
           ca = v12, thal = v13\<rparr>
   }"

text \<open>
  What FastAPI does with the body of \<^verbatim>\<open>POST /predict\<close> before it calls the handler:
  \<open>Inl\<close> is the list of field errors (answered with status 422), \<open>Inr\<close> the
  \<^verbatim>\<open>HeartPatient\<close> object handed to \<^verbatim>\<open>predict\<close>.
\<close>

definition HeartPatient_validate :: "coercion \<Rightarrow> body \<Rightarrow> field_error list + HeartPatient" where
  "HeartPatient_validate c b =
     (case HeartPatient_parse c (dict_of b) of
        Some p \<Rightarrow> Inr p
      | None \<Rightarrow> Inl (field_errors c (dict_of b)))"

section \<open>The scored model and the data frame it is called with\<close>

text \<open>
  A one-row pandas data frame: the cells of the row with their column names, in column
  order. Integer and float columns keep their own dtype.
\<close>

datatype cell = IntCell int | FloatCell real

type_synonym dataframe = "(string \<times> cell) list"

text \<open>
  The unpickled pipeline is opaque. \<open>model_predict\<close> is \<^verbatim>\<open>model.predict\<close>: it raises
  (\<open>Inl\<close> the text of the exception) or returns the array of labels.
  \<open>model_predict_proba\<close> is \<open>None\<close> when \<^verbatim>\<open>hasattr(model, "predict_proba")\<close> is false;
  otherwise it raises or returns one row of class probabilities per input row.
\<close>

record model_handle =
  model_predict :: "dataframe \<Rightarrow> string + int list"
  model_predict_proba :: "(dataframe \<Rightarrow> string + real list list) option"

text \<open>Indexing a sequence raises \<^verbatim>\<open>IndexError\<close> out of range.\<close>

definition index :: "'a list \<Rightarrow> nat \<Rightarrow> string + 'a" where
  "index xs i = (if i < length xs then Inr (xs ! i) else Inl ''index out of range'')"

text \<open>\<^verbatim>\<open>pd.DataFrame([row], columns=names)\<close> raises when the lengths differ.\<close>

definition DataFrame :: "cell list \<Rightarrow> string list \<Rightarrow> string + dataframe" where
  "DataFrame row names =
     (if length row = length names then Inr (zip names row)
      else Inl ''columns passed do not match the data'')"

text \<open>\<^verbatim>\<open>df[names]\<close>: the named columns in the order asked for; \<^verbatim>\<open>KeyError\<close> if one is absent.\<close>

fun select_columns :: "dataframe \<Rightarrow> string list \<Rightarrow> string + dataframe" where
  "select_columns df [] = Inr []"
| "select_columns df (n # ns) =
     (case map_of df n of
        None \<Rightarrow> Inl (n @ '' not in index'')
      | Some v \<Rightarrow> (case select_columns df ns of Inl e \<Rightarrow> Inl e | Inr r \<Rightarrow> Inr ((n, v) # r)))"

section \<open>The deployment service\<close>

subsection \<open>Loading the model at import time\<close>

text \<open>
  The file system as the loader sees it: \<open>None\<close> when \<^verbatim>\<open>os.path.exists\<close> is false,
  \<open>Some (Inl msg)\<close> when \<^verbatim>\<open>joblib.load\<close> raises an exception whose text is \<open>msg\<close>,
  \<open>Some (Inr h)\<close> when it returns the handle \<open>h\<close>. Exceptions are the ones
  \<^verbatim>\<open>except Exception\<close> catches; an interpreter exit or a cancelled task is not a
  value of the model.
\<close>

type_synonym artifacts = "string \<Rightarrow> (string + model_handle) option"

record app_state =
  model :: "model_handle option"
  load_error :: "string option"

text \<open>
  Lines 24 to 37: both globals start as \<^verbatim>\<open>None\<close>; a missing file raises
  \<^verbatim>\<open>FileNotFoundError\<close> inside the \<^verbatim>\<open>try\<close>, and every exception ends in
  \<^verbatim>\<open>load_error = str(e)\<close>. The module always finishes importing.
\<close>

definition load_model :: "artifacts \<Rightarrow> string \<Rightarrow> app_state" where
  "load_model fs MODEL_PATH =
     (case fs MODEL_PATH of
        None \<Rightarrow> \<lparr>model = None, load_error = Some (''Model file not found: '' @ MODEL_PATH)\<rparr>
      | Some (Inl e) \<Rightarrow> \<lparr>model = None, load_error = Some e\<rparr>
      | Some (Inr h) \<Rightarrow> \<lparr>model = Some h, load_error = None\<rparr>)"

subsection \<open>Responses\<close>

datatype content =
    Message string
  | MessageMetrics string string
  | Prediction int real string
  | MonitoredPrediction int real string real
  | Detail string
  | ValidationDetail "field_error list"

record response =
  status_code :: nat
  content :: content

text \<open>The check mark that ends both health messages, as its three UTF-8 bytes.\<close>

definition check_mark :: string where
  "check_mark = [CHR 0xE2, CHR 0x9C, CHR 0x85]"

definition read_root :: response where
  "read_root = \<lparr>status_code = 200,
                 content = Message (''Heart Disease Prediction API '' @ check_mark)\<rparr>"

subsection \<open>The handler of POST /predict\<close>

definition column_names :: "string list" where
  "column_names = [''age'', ''sex'', ''cp'', ''trestbps'', ''chol'', ''fbs'', ''restecg'',
                   ''thalach'', ''exang'', ''oldpeak'', ''slope'', ''ca'', ''thal'']"

definition features :: "HeartPatient \<Rightarrow> string + dataframe" where
  "features data =
     DataFrame [FloatCell (age data), IntCell (sex data), IntCell (cp data),
                FloatCell (trestbps data), FloatCell (chol data), IntCell (fbs data),
                IntCell (restecg data), FloatCell (thalach data), IntCell (exang data),
                FloatCell (oldpeak data), IntCell (slope data), FloatCell (ca data),
                IntCell (thal data)]
               column_names"

text \<open>
  \<^verbatim>\<open>model.predict\<close> with the global \<^verbatim>\<open>model\<close> still \<^verbatim>\<open>None\<close> raises
  \<^verbatim>\<open>AttributeError\<close> on the attribute lookup; nothing in the handler reads
  \<^verbatim>\<open>load_error\<close>.
\<close>

definition quoted :: "string \<Rightarrow> string" where
  "quoted s = CHR 0x27 # s @ [CHR 0x27]"

definition no_attribute :: "string \<Rightarrow> string \<Rightarrow> string" where
  "no_attribute cls attr = quoted cls @ '' object has no attribute '' @ quoted attr"

text \<open>
  The body of the \<^verbatim>\<open>try\<close> block, lines 65 to 86: \<open>Inl\<close> is the text of the
  exception that left it, \<open>Inr\<close> the dictionary returned. Without
  \<^verbatim>\<open>predict_proba\<close> the handler calls \<^verbatim>\<open>model.predict\<close> a second time and converts
  the label with \<^verbatim>\<open>float\<close>.
\<close>

definition predict_try :: "app_state \<Rightarrow> HeartPatient \<Rightarrow> string + content" where
  "predict_try st data =
     (case features data of Inl e \<Rightarrow> Inl e | Inr df \<Rightarrow>
      (case model st of None \<Rightarrow> Inl (no_attribute ''NoneType'' ''predict'') | Some m \<Rightarrow>
       (case model_predict m df of Inl e \<Rightarrow> Inl e | Inr labels \<Rightarrow>
        (case index labels 0 of Inl e \<Rightarrow> Inl e | Inr prediction \<Rightarrow>
         (case
            (case model_predict_proba m of
               Some predict_proba \<Rightarrow>
                 (case predict_proba df of Inl e \<Rightarrow> Inl e | Inr rows \<Rightarrow>
                  (case index rows 0 of Inl e \<Rightarrow> Inl e | Inr row \<Rightarrow> index row 1))
             | None \<Rightarrow>
                 (case model_predict m df of Inl e \<Rightarrow> Inl e | Inr labels2 \<Rightarrow>
                  (case index labels2 0 of Inl e \<Rightarrow> Inl e | Inr l \<Rightarrow> Inr (of_int l))))
          of Inl e \<Rightarrow> Inl e | Inr probability \<Rightarrow>
            Inr (Prediction prediction probability
                   (if probability > 0.5 then ''HIGH'' else ''LOW'')))))))"

text \<open>
  Every exception of the block becomes \<^verbatim>\<open>HTTPException(status_code=400, detail=str(e))\<close>,
  which FastAPI renders as a response with status 400.
\<close>

definition predict :: "app_state \<Rightarrow> HeartPatient \<Rightarrow> response" where
  "predict st data =
     (case predict_try st data of
        Inl e \<Rightarrow> \<lparr>status_code = 400, content = Detail e\<rparr>
      | Inr r \<Rightarrow> \<lparr>status_code = 200, content = r\<rparr>)"

subsection \<open>The two routes\<close>

datatype request = GetRoot | PostPredict body

definition deployment_app :: "coercion \<Rightarrow> app_state \<Rightarrow> request \<Rightarrow> response" where
  "deployment_app c st req =
     (case req of
        GetRoot \<Rightarrow> read_root
      | PostPredict b \<Rightarrow>
          (case HeartPatient_validate c b of
             Inl errs \<Rightarrow> \<lparr>status_code = 422, content = ValidationDetail errs\<rparr>
           | Inr data \<Rightarrow> predict st data))"

section \<open>The monitored service\<close>

subsection \<open>Loading the model at import time\<close>

text \<open>
  Line 27 is a bare \<^verbatim>\<open>joblib.load("models/heart_disease_pipeline_prod.joblib")\<close> at module
  level: whatever it raises leaves the import, so the process never serves. \<open>Inl\<close> is
  that exception, \<open>Inr\<close> the global \<^verbatim>\<open>model\<close> of a process that started.
\<close>

definition monitored_model_path :: string where
  "monitored_model_path = ''models/heart_disease_pipeline_prod.joblib''"

definition monitored_startup :: "artifacts \<Rightarrow> string + model_handle" where
  "monitored_startup fs =
     (case fs monitored_model_path of
        None \<Rightarrow> Inl (''[Errno 2] No such file or directory: '' @ quoted monitored_model_path)
      | Some (Inl e) \<Rightarrow> Inl e
      | Some (Inr h) \<Rightarrow> Inr h)"

subsection \<open>Metrics\<close>

text \<open>
  The four module-level metrics. A labelled counter is a count per label tuple;
  \<^verbatim>\<open>REQUEST_COUNT\<close> is labelled with method, endpoint and status,
  \<^verbatim>\<open>PREDICTIONS\<close> with the label predicted. The histogram is kept as the list of
  observations. Incrementing, decrementing and observing never raise.
\<close>

record metrics =
  ACTIVE_USERS :: int
  REQUEST_COUNT :: "string \<times> string \<times> nat \<Rightarrow> nat"
  PREDICTIONS :: "int \<Rightarrow> nat"
  REQUEST_DURATION :: "real list"

definition gauge_inc :: "metrics \<Rightarrow> metrics" where
  "gauge_inc ms = ms\<lparr>ACTIVE_USERS := ACTIVE_USERS ms + 1\<rparr>"

definition gauge_dec :: "metrics \<Rightarrow> metrics" where
  "gauge_dec ms = ms\<lparr>ACTIVE_USERS := ACTIVE_USERS ms - 1\<rparr>"

definition count_request :: "string \<times> string \<times> nat \<Rightarrow> metrics \<Rightarrow> metrics" where
  "count_request l ms = ms\<lparr>REQUEST_COUNT := (REQUEST_COUNT ms)(l := REQUEST_COUNT ms l + 1)\<rparr>"

definition count_prediction :: "int \<Rightarrow> metrics \<Rightarrow> metrics" where
  "count_prediction p ms = ms\<lparr>PREDICTIONS := (PREDICTIONS ms)(p := PREDICTIONS ms p + 1)\<rparr>"

definition observe :: "real \<Rightarrow> metrics \<Rightarrow> metrics" where
  "observe d ms = ms\<lparr>REQUEST_DURATION := REQUEST_DURATION ms @ [d]\<rparr>"

subsection \<open>The middleware\<close>

record http_request =
  http_method :: string
  url_path :: string

text \<open>
  What \<^verbatim>\<open>await call_next(request)\<close> does: it returns a response or raises an
  exception (one that \<^verbatim>\<open>except Exception\<close> catches), and may have changed the metrics
  meanwhile.
\<close>

datatype outcome = Returned response | Raised string

definition prometheus_metrics ::
  "http_request \<Rightarrow> (http_request \<Rightarrow> metrics \<Rightarrow> outcome \<times> metrics) \<Rightarrow> metrics \<Rightarrow> outcome \<times> metrics" where
  "prometheus_metrics request call_next ms =
     (case call_next request (gauge_inc ms) of
        (Returned response, ms') \<Rightarrow>
          (Returned response,
           gauge_dec (count_request (http_method request, url_path request, status_code response) ms'))
      | (Raised e, ms') \<Rightarrow>
          (Raised e,
           count_request (http_method request, url_path request, 500) (gauge_dec ms')))"

subsection \<open>The handlers\<close>

definition root_handler :: response where
  "root_handler = \<lparr>status_code = 200,
                    content = MessageMetrics (''Heart Disease API (MONITORED) '' @ check_mark)
                                ''/metrics''\<rparr>"

definition feature_columns :: "string list" where
  "feature_columns = [''age'', ''sex'', ''cp'', ''trestbps'', ''chol'', ''fbs'', ''restecg'',
                      ''thalach'', ''exang'', ''oldpeak'', ''slope'', ''ca'', ''thal'']"

text \<open>\<^verbatim>\<open>patient.dict()\<close>: the fields in declaration order.\<close>

definition patient_dict :: "HeartPatient \<Rightarrow> dataframe" where
  "patient_dict patient =
     [(''age'', FloatCell (age patient)), (''sex'', IntCell (sex patient)),
      (''cp'', IntCell (cp patient)), (''trestbps'', FloatCell (trestbps patient)),
      (''chol'', FloatCell (chol patient)), (''fbs'', IntCell (fbs patient)),
      (''restecg'', IntCell (restecg patient)), (''thalach'', FloatCell (thalach patient)),
      (''exang'', IntCell (exang patient)), (''oldpeak'', FloatCell (oldpeak patient)),
      (''slope'', IntCell (slope patient)), (''ca'', FloatCell (ca patient)),
      (''thal'', IntCell (thal patient))]"

definition test_df :: "HeartPatient \<Rightarrow> string + dataframe" where
  "test_df patient = select_columns (patient_dict patient) feature_columns"

text \<open>
  Lines 77 and 78: the label, then the probability of class 1. There is no
  \<^verbatim>\<open>hasattr\<close> test here; on a model without \<^verbatim>\<open>predict_proba\<close> the attribute lookup
  raises. The text of that error names the class of the object; it is written here for
  the \<^verbatim>\<open>Pipeline\<close> that the training script dumps.
\<close>

definition model_outputs :: "model_handle \<Rightarrow> HeartPatient \<Rightarrow> string + int \<times> real" where
  "model_outputs m patient =
     (case test_df patient of Inl e \<Rightarrow> Inl e | Inr df \<Rightarrow>
      (case model_predict m df of Inl e \<Rightarrow> Inl e | Inr labels \<Rightarrow>
       (case index labels 0 of Inl e \<Rightarrow> Inl e | Inr prediction \<Rightarrow>
        (case model_predict_proba m of
           None \<Rightarrow> Inl (no_attribute ''Pipeline'' ''predict_proba'')
         | Some predict_proba \<Rightarrow>
             (case predict_proba df of Inl e \<Rightarrow> Inl e | Inr rows \<Rightarrow>
              (case index rows 0 of Inl e \<Rightarrow> Inl e | Inr row \<Rightarrow>
               (case index row 1 of Inl e \<Rightarrow> Inl e | Inr probability \<Rightarrow>
                  Inr (prediction, probability))))))))"

text \<open>
  \<^verbatim>\<open>round(x, 4)\<close>: the nearest multiple of one ten-thousandth, a tie going to the even
  one.
\<close>

definition round_half_even :: "real \<Rightarrow> int" where
  "round_half_even y =
     (let f = \<lfloor>y\<rfloor>; r = y - of_int f in
      if r < 1/2 then f else if 1/2 < r then f + 1 else if even f then f else f + 1)"

definition round4 :: "real \<Rightarrow> real" where
  "round4 x = of_int (round_half_even (x * 10000)) / 10000"

text \<open>
  The handler of \<^verbatim>\<open>POST /predict\<close>. \<open>duration\<close> is the difference of the two clock
  readings; the response carries it as the number that the source prints with three
  decimals. The prediction counter and the histogram are touched only after both model
  calls have returned; an exception of the block becomes a response with status 400.
  Log lines are not part of the model.
\<close>

definition predict_monitored ::
  "model_handle \<Rightarrow> HeartPatient \<Rightarrow> real \<Rightarrow> metrics \<Rightarrow> response \<times> metrics" where
  "predict_monitored m patient duration ms =
     (case model_outputs m patient of
        Inl e \<Rightarrow> (\<lparr>status_code = 400, content = Detail (''Prediction error: '' @ e)\<rparr>, ms)
      | Inr (prediction, probability) \<Rightarrow>
          (\<lparr>status_code = 200,
            content = MonitoredPrediction prediction (round4 probability)
                        (if probability > 0.5 then ''HIGH RISK'' else ''LOW RISK'') duration\<rparr>,
           observe duration (count_prediction prediction ms)))"

text \<open>
  The two declared routes behind the middleware; \<open>duration\<close> stands for the clock.
\<close>

definition monitored_routes ::
  "coercion \<Rightarrow> model_handle \<Rightarrow> real \<Rightarrow> request \<Rightarrow> http_request \<Rightarrow> metrics \<Rightarrow> outcome \<times> metrics" where
  "monitored_routes c m duration req request ms =
     (case req of
        GetRoot \<Rightarrow> (Returned root_handler, ms)
      | PostPredict b \<Rightarrow>
          (case HeartPatient_validate c b of
             Inl errs \<Rightarrow> (Returned \<lparr>status_code = 422, content = ValidationDetail errs\<rparr>, ms)
           | Inr patient \<Rightarrow>
               (case predict_monitored m patient duration ms of (r, ms') \<Rightarrow> (Returned r, ms'))))"

definition http_of :: "request \<Rightarrow> http_request" where
  "http_of req =
     (case req of
        GetRoot \<Rightarrow> \<lparr>http_method = ''GET'', url_path = ''/''\<rparr>
      | PostPredict b \<Rightarrow> \<lparr>http_method = ''POST'', url_path = ''/predict''\<rparr>)"

definition monitored_app ::
  "coercion \<Rightarrow> model_handle \<Rightarrow> real \<Rightarrow> request \<Rightarrow> metrics \<Rightarrow> outcome \<times> metrics" where
  "monitored_app c m duration req ms =
     prometheus_metrics (http_of req) (monitored_routes c m duration req) ms"

subsection \<open>The services as processes\<close>

text \<open>
  A request is answered by a process that has finished importing its module. The
  deployment module always does (\<open>load_model\<close> is total) and then serves with the
  state the loader left. The routes of the monitored module exist only once line 27 has
  returned: \<open>Inl\<close> is the exception that ended the import, after which there is no
  server and no request is answered.
\<close>

definition deployment_process :: "artifacts \<Rightarrow> string \<Rightarrow> coercion \<Rightarrow> request \<Rightarrow> response" where
  "deployment_process fs MODEL_PATH c req = deployment_app c (load_model fs MODEL_PATH) req"

definition monitored_process ::
  "artifacts \<Rightarrow> coercion \<Rightarrow> real \<Rightarrow> request \<Rightarrow> metrics \<Rightarrow> string + outcome \<times> metrics" where
  "monitored_process fs c duration req ms =
     (case monitored_startup fs of
        Inl e \<Rightarrow> Inl e
      | Inr m \<Rightarrow> Inr (monitored_app c m duration req ms))"

section \<open>Concrete requests and stub models\<close>

text \<open>
  The record of the end-to-end scenario, the same record with three fields outside the
  ranges the data set uses, stub handles with and without \<^verbatim>\<open>predict_proba\<close>, and a
  \<^verbatim>\<open>call_next\<close> that raises.
\<close>

definition scenario_body :: body where
  "scenario_body =
     [(''age'', JInt 45), (''sex'', JInt 1), (''cp'', JInt 0), (''trestbps'', JInt 120),
      (''chol'', JInt 200), (''fbs'', JInt 0), (''restecg'', JInt 0), (''thalach'', JInt 150),
      (''exang'', JInt 0), (''oldpeak'', JNum 0), (''slope'', JInt 1), (''ca'', JInt 0),
      (''thal'', JInt 3)]"

definition scenario_patient :: HeartPatient where
  "scenario_patient =
     \<lparr>age = 45, sex = 1, cp = 0, trestbps = 120, chol = 200, fbs = 0, restecg = 0,
      thalach = 150, exang = 0, oldpeak = 0, slope = 1, ca = 0, thal = 3\<rparr>"

definition missing_thal_body :: body where
  "missing_thal_body = butlast scenario_body"

definition out_of_domain_body :: body where
  "out_of_domain_body =
     [(''age'', JInt (- 5)), (''sex'', JInt 7), (''cp'', JInt 0), (''trestbps'', JInt 120),
      (''chol'', JInt 200), (''fbs'', JInt 0), (''restecg'', JInt 0), (''thalach'', JInt 150),
      (''exang'', JInt 0), (''oldpeak'', JNum 0), (''slope'', JInt 1), (''ca'', JInt 0),
      (''thal'', JInt 9)]"

definition stub_model :: "int \<Rightarrow> real list \<Rightarrow> model_handle" where
  "stub_model l ps =
     \<lparr>model_predict = (\<lambda>df. Inr [l]), model_predict_proba = Some (\<lambda>df. Inr [ps])\<rparr>"

definition label_only_model :: "int \<Rightarrow> model_handle" where
  "label_only_model l = \<lparr>model_predict = (\<lambda>df. Inr [l]), model_predict_proba = None\<rparr>"

text \<open>
  The frame of the scenario record, and a handle that answers at one frame only and
  raises at every other.
\<close>

definition scenario_frame :: dataframe where
  "scenario_frame =
     [(''age'', FloatCell 45), (''sex'', IntCell 1), (''cp'', IntCell 0),
      (''trestbps'', FloatCell 120), (''chol'', FloatCell 200), (''fbs'', IntCell 0),
      (''restecg'', IntCell 0), (''thalach'', FloatCell 150), (''exang'', IntCell 0),
      (''oldpeak'', FloatCell 0), (''slope'', IntCell 1), (''ca'', FloatCell 0),
      (''thal'', IntCell 3)]"

definition probe_model :: "dataframe \<Rightarrow> model_handle" where
  "probe_model F =
     \<lparr>model_predict = (\<lambda>df. if df = F then Inr [1] else Inl ''unexpected frame''),
      model_predict_proba =
        Some (\<lambda>df. if df = F then Inr [[0.3, 0.7]] else Inl ''unexpected frame'')\<rparr>"

definition loaded :: "model_handle \<Rightarrow> app_state" where
  "loaded m = \<lparr>model = Some m, load_error = None\<rparr>"

definition no_metrics :: metrics where
  "no_metrics = \<lparr>ACTIVE_USERS = 0, REQUEST_COUNT = (\<lambda>l. 0), PREDICTIONS = (\<lambda>p. 0),
                 REQUEST_DURATION = []\<rparr>"

definition raising :: "http_request \<Rightarrow> metrics \<Rightarrow> outcome \<times> metrics" where
  "raising request ms = (Raised ''boom'', ms)"

section \<open>What validation accepts and rejects\<close>

lemma check_float_ok: "check_field c d (n, Float_t) = [] \<longleftrightarrow> get_float c d n \<noteq> None"
  by (auto simp: get_float_def split: option.splits Option.bind_splits)

lemma check_int_ok: "check_field c d (n, Int_t) = [] \<longleftrightarrow> get_int c d n \<noteq> None"
  by (auto simp: get_int_def split: option.splits Option.bind_splits)

lemma parse_None_iff: "HeartPatient_parse c d = None \<longleftrightarrow> field_errors c d \<noteq> []"
  unfolding HeartPatient_parse_def field_errors_def HeartPatient_fields_def
  by (simp add: check_float_ok check_int_ok bind_eq_None_conv del: check_field.simps)

lemma validate_Inl_iff:
  "HeartPatient_validate c b = Inl errs \<longleftrightarrow>
     errs = field_errors c (dict_of b) \<and> field_errors c (dict_of b) \<noteq> []"
  using parse_None_iff [of c "dict_of b"]
  by (auto simp: HeartPatient_validate_def split: option.splits)

lemma validate_Inr_errors: "HeartPatient_validate c b = Inr p \<Longrightarrow> field_errors c (dict_of b) = []"
  using parse_None_iff [of c "dict_of b"]
  by (auto simp: HeartPatient_validate_def split: option.splits)

lemma Missing_in_check:
  "Missing n \<in> set (check_field c d (k, t)) \<longleftrightarrow> n = k \<and> d k = None"
  by (cases t) (auto split: option.splits)

lemma WrongType_in_check:
  "WrongType n \<in> set (check_field c d (k, t)) \<longleftrightarrow>
     n = k \<and> (\<exists>v. d k = Some v \<and> (case t of Int_t \<Rightarrow> to_int c v = None | Float_t \<Rightarrow> to_float c v = None))"
  by (cases t) (auto split: option.splits)

lemma fields_names: "map fst HeartPatient_fields = column_names"
  by (simp add: HeartPatient_fields_def column_names_def)

lemma Missing_in_errors:
  "Missing n \<in> set (field_errors c d) \<longleftrightarrow> n \<in> set column_names \<and> d n = None"
proof -
  have "Missing n \<in> set (field_errors c d) \<longleftrightarrow>
          (\<exists>kt \<in> set HeartPatient_fields. Missing n \<in> set (check_field c d kt))"
    by (simp add: field_errors_def)
  also have "\<dots> \<longleftrightarrow> (\<exists>kt \<in> set HeartPatient_fields. n = fst kt \<and> d n = None)"
    by (rule bex_cong) (auto simp: Missing_in_check)
  also have "\<dots> \<longleftrightarrow> n \<in> fst ` set HeartPatient_fields \<and> d n = None"
    by auto
  finally show ?thesis
    using fields_names by (metis set_map)
qed

lemma WrongType_in_errors:
  "WrongType n \<in> set (field_errors c d) \<longleftrightarrow>
     (\<exists>v. d n = Some v \<and>
        ((n, Int_t) \<in> set HeartPatient_fields \<and> to_int c v = None \<or>
         (n, Float_t) \<in> set HeartPatient_fields \<and> to_float c v = None))"
proof -
  have "WrongType n \<in> set (field_errors c d) \<longleftrightarrow>
          (\<exists>kt \<in> set HeartPatient_fields. WrongType n \<in> set (check_field c d kt))"
    by (simp add: field_errors_def)
  also have "\<dots> \<longleftrightarrow> (\<exists>kt \<in> set HeartPatient_fields. n = fst kt \<and>
       (\<exists>v. d n = Some v \<and> (case snd kt of Int_t \<Rightarrow> to_int c v = None | Float_t \<Rightarrow> to_float c v = None)))"
    by (rule bex_cong) (auto simp: WrongType_in_check)
  also have "\<dots> \<longleftrightarrow> (\<exists>v. d n = Some v \<and>
        ((n, Int_t) \<in> set HeartPatient_fields \<and> to_int c v = None \<or>
         (n, Float_t) \<in> set HeartPatient_fields \<and> to_float c v = None))"
  proof (intro iffI)
    assume "\<exists>kt \<in> set HeartPatient_fields. n = fst kt \<and>
       (\<exists>v. d n = Some v \<and> (case snd kt of Int_t \<Rightarrow> to_int c v = None | Float_t \<Rightarrow> to_float c v = None))"
    then obtain k t v where kt: "(k, t) \<in> set HeartPatient_fields" "n = k" "d n = Some v"
      and bad: "case t of Int_t \<Rightarrow> to_int c v = None | Float_t \<Rightarrow> to_float c v = None"
      by auto
    show "\<exists>v. d n = Some v \<and>
        ((n, Int_t) \<in> set HeartPatient_fields \<and> to_int c v = None \<or>
         (n, Float_t) \<in> set HeartPatient_fields \<and> to_float c v = None)"
      using kt bad by (cases t) auto
  next
    assume "\<exists>v. d n = Some v \<and>
        ((n, Int_t) \<in> set HeartPatient_fields \<and> to_int c v = None \<or>
         (n, Float_t) \<in> set HeartPatient_fields \<and> to_float c v = None)"
    then show "\<exists>kt \<in> set HeartPatient_fields. n = fst kt \<and>
       (\<exists>v. d n = Some v \<and> (case snd kt of Int_t \<Rightarrow> to_int c v = None | Float_t \<Rightarrow> to_float c v = None))"
      by force
  qed
  finally show ?thesis .
qed

lemma any_numbers_accepted:
  "HeartPatient_validate json_numbers
     [(''age'', JNum v1), (''sex'', JInt v2), (''cp'', JInt v3), (''trestbps'', JNum v4),
      (''chol'', JNum v5), (''fbs'', JInt v6), (''restecg'', JInt v7), (''thalach'', JNum v8),
      (''exang'', JInt v9), (''oldpeak'', JNum v10), (''slope'', JInt v11), (''ca'', JNum v12),
      (''thal'', JInt v13)]
   = Inr \<lparr>age = v1, sex = v2, cp = v3, trestbps = v4, chol = v5, fbs = v6, restecg = v7,
          thalach = v8, exang = v9, oldpeak = v10, slope = v11, ca = v12, thal = v13\<rparr>"
  by (simp add: HeartPatient_validate_def HeartPatient_parse_def dict_of_def
      get_int_def get_float_def json_numbers_def)

lemma validate_scenario: "HeartPatient_validate json_numbers scenario_body = Inr scenario_patient"
  by (simp add: HeartPatient_validate_def HeartPatient_parse_def dict_of_def scenario_body_def
      scenario_patient_def get_int_def get_float_def json_numbers_def)


section \<open>Feature frames\<close>

lemma features_frame: "features p = Inr (patient_dict p)"
  by (simp add: features_def DataFrame_def column_names_def patient_dict_def)

lemma test_df_frame: "test_df p = Inr (patient_dict p)"
  by (simp add: test_df_def feature_columns_def patient_dict_def)

text \<open>
  The handlers consult the model at this frame and nowhere else: two handles that agree
  on it give the same answer.
\<close>

lemma predict_reads_frame_only:
  assumes "model_predict m (patient_dict p) = model_predict m' (patient_dict p)"
    and "map_option (\<lambda>f. f (patient_dict p)) (model_predict_proba m) =
         map_option (\<lambda>f. f (patient_dict p)) (model_predict_proba m')"
  shows "predict \<lparr>model = Some m, load_error = le\<rparr> p =
         predict \<lparr>model = Some m', load_error = le\<rparr> p"
proof -
  have "predict_try \<lparr>model = Some m, load_error = le\<rparr> p =
        predict_try \<lparr>model = Some m', load_error = le\<rparr> p"
    using assms
    by (cases "model_predict_proba m"; cases "model_predict_proba m'")
       (auto simp: predict_try_def features_frame split: sum.splits)
  then show ?thesis
    by (simp add: predict_def)
qed

lemma model_outputs_reads_frame_only:
  assumes "model_predict m (patient_dict p) = model_predict m' (patient_dict p)"
    and "map_option (\<lambda>f. f (patient_dict p)) (model_predict_proba m) =
         map_option (\<lambda>f. f (patient_dict p)) (model_predict_proba m')"
  shows "model_outputs m p = model_outputs m' p"
  using assms
  by (cases "model_predict_proba m"; cases "model_predict_proba m'")
     (auto simp: model_outputs_def test_df_frame split: sum.splits)

lemma dict_of_reorder:
  assumes "distinct (map fst b1)" and "mset b1 = mset b2"
  shows "dict_of b1 = dict_of b2"
proof -
  have "mset (map fst b1) = mset (map fst b2)"
    using assms(2) by (metis mset_map)
  then have d2: "distinct (map fst b2)"
    using assms(1) by (metis mset_eq_imp_distinct_iff)
  have "set b1 = set b2"
    using assms(2) by (rule mset_eq_setD)
  then show ?thesis
    unfolding dict_of_def using assms(1) d2
    by (simp add: map_of_inject_set rev_map[symmetric])
qed

lemma predict_model_raises:
  assumes "model_predict m (patient_dict p) = Inl e"
  shows "predict \<lparr>model = Some m, load_error = le\<rparr> p = \<lparr>status_code = 400, content = Detail e\<rparr>"
    and "predict_monitored m p d ms =
           (\<lparr>status_code = 400, content = Detail (''Prediction error: '' @ e)\<rparr>, ms)"
  using assms
  by (simp_all add: predict_def predict_try_def features_frame predict_monitored_def
      model_outputs_def test_df_frame)

lemma predict_model_answers:
  assumes "model_predict m (patient_dict p) = Inr (l # ls)"
    and "model_predict_proba m = Some f"
    and "f (patient_dict p) = Inr ((q # pr # row) # rows)"
  shows "predict \<lparr>model = Some m, load_error = le\<rparr> p =
           \<lparr>status_code = 200,
            content = Prediction l pr (if 1/2 < pr then ''HIGH'' else ''LOW'')\<rparr>"
    and "predict_monitored m p d ms =
           (\<lparr>status_code = 200,
             content = MonitoredPrediction l (round4 pr)
                         (if 1/2 < pr then ''HIGH RISK'' else ''LOW RISK'') d\<rparr>,
            observe d (count_prediction l ms))"
  using assms
  by (simp_all add: predict_def predict_try_def features_frame predict_monitored_def
      model_outputs_def test_df_frame index_def)

text \<open>
  C3. Sending the members of the body in another order gives the same validated record.
  From that record both services build the frame \<open>F\<close> whose thirteen columns are, in
  this order, age, sex, cp, trestbps, chol, fbs, restecg, thalach, exang, oldpeak, slope,
  ca, thal, and \<open>F\<close> is what the model is called with: an exception of
  \<^verbatim>\<open>model.predict\<close> at \<open>F\<close> is the error the request is answered with, the label
  and the probability row the model gives at \<open>F\<close> are the decision, and two handles
  that agree at \<open>F\<close> are answered alike, whatever they do at any other frame.
\<close>

theorem canonical_feature_order:
  assumes "distinct (map fst b1)" and "mset b1 = mset b2"
    and "HeartPatient_validate c b1 = Inr p"
    and "F = [(''age'', FloatCell (age p)), (''sex'', IntCell (sex p)),
              (''cp'', IntCell (cp p)), (''trestbps'', FloatCell (trestbps p)),
              (''chol'', FloatCell (chol p)), (''fbs'', IntCell (fbs p)),
              (''restecg'', IntCell (restecg p)), (''thalach'', FloatCell (thalach p)),
              (''exang'', IntCell (exang p)), (''oldpeak'', FloatCell (oldpeak p)),
              (''slope'', IntCell (slope p)), (''ca'', FloatCell (ca p)),
              (''thal'', IntCell (thal p))]"
  shows "HeartPatient_validate c b2 = Inr p \<and>
         features p = Inr F \<and> test_df p = Inr F \<and>
         (model_predict m F = Inl e \<longrightarrow>
            predict \<lparr>model = Some m, load_error = le\<rparr> p =
              \<lparr>status_code = 400, content = Detail e\<rparr> \<and>
            predict_monitored m p d ms =
              (\<lparr>status_code = 400, content = Detail (''Prediction error: '' @ e)\<rparr>, ms)) \<and>
         (model_predict m F = Inr (l # ls) \<and> model_predict_proba m = Some f \<and>
          f F = Inr ((q # pr # row) # rows) \<longrightarrow>
            predict \<lparr>model = Some m, load_error = le\<rparr> p =
              \<lparr>status_code = 200,
               content = Prediction l pr (if 1/2 < pr then ''HIGH'' else ''LOW'')\<rparr> \<and>
            predict_monitored m p d ms =
              (\<lparr>status_code = 200,
                content = MonitoredPrediction l (round4 pr)
                            (if 1/2 < pr then ''HIGH RISK'' else ''LOW RISK'') d\<rparr>,
               observe d (count_prediction l ms))) \<and>
         (model_predict m F = model_predict m' F \<and>
          map_option (\<lambda>g. g F) (model_predict_proba m) =
            map_option (\<lambda>g. g F) (model_predict_proba m') \<longrightarrow>
            predict \<lparr>model = Some m, load_error = le\<rparr> p =
              predict \<lparr>model = Some m', load_error = le\<rparr> p \<and>
            model_outputs m p = model_outputs m' p)"
proof -
  have eq: "dict_of b1 = dict_of b2"
    using assms(1,2) by (rule dict_of_reorder)
  have "HeartPatient_validate c b2 = HeartPatient_validate c b1"
    by (simp only: HeartPatient_validate_def eq)
  then have v: "HeartPatient_validate c b2 = Inr p"
    using assms(3) by simp
  have F: "F = patient_dict p"
    using assms(4) by (simp add: patient_dict_def)
  show ?thesis
    unfolding F
    using v predict_model_raises(1) [of m p e le] predict_model_raises(2) [of m p e d ms]
      predict_model_answers(1) [of m p l ls f q pr row rows le]
      predict_model_answers(2) [of m p l ls f q pr row rows d ms]
      predict_reads_frame_only [of m p m' le] model_outputs_reads_frame_only [of m p m']
    by (simp add: features_frame test_df_frame)
qed

theorem canonical_feature_order_witness:
  "distinct (map fst scenario_body) \<and> mset scenario_body = mset (rev scenario_body) \<and>
   HeartPatient_validate json_numbers scenario_body = Inr scenario_patient \<and>
   HeartPatient_validate json_numbers (rev scenario_body) = Inr scenario_patient \<and>
   features scenario_patient = Inr scenario_frame \<and>
   test_df scenario_patient = Inr scenario_frame \<and>
   model_predict (probe_model (rev scenario_frame)) scenario_frame = Inl ''unexpected frame'' \<and>
   predict (loaded (probe_model (rev scenario_frame))) scenario_patient =
     \<lparr>status_code = 400, content = Detail ''unexpected frame''\<rparr> \<and>
   model_predict (probe_model scenario_frame) scenario_frame = Inr [1] \<and>
   predict (loaded (probe_model scenario_frame)) scenario_patient =
     \<lparr>status_code = 200, content = Prediction 1 0.7 ''HIGH''\<rparr> \<and>
   fst (predict_monitored (probe_model scenario_frame) scenario_patient 0 no_metrics) =
     \<lparr>status_code = 200, content = MonitoredPrediction 1 (round4 0.7) ''HIGH RISK'' 0\<rparr> \<and>
   predict (loaded (probe_model scenario_frame)) scenario_patient =
     predict (loaded (stub_model 1 [0.3, 0.7])) scenario_patient"
proof -
  have h1: "distinct (map fst scenario_body)"
    by (simp add: scenario_body_def)
  have h2: "mset scenario_body = mset (rev scenario_body)"
    by simp
  have h3: "HeartPatient_validate json_numbers scenario_body = Inr scenario_patient"
    by (rule validate_scenario)
  have h4: "scenario_frame =
     [(''age'', FloatCell (age scenario_patient)), (''sex'', IntCell (sex scenario_patient)),
      (''cp'', IntCell (cp scenario_patient)),
      (''trestbps'', FloatCell (trestbps scenario_patient)),
      (''chol'', FloatCell (chol scenario_patient)), (''fbs'', IntCell (fbs scenario_patient)),
      (''restecg'', IntCell (restecg scenario_patient)),
      (''thalach'', FloatCell (thalach scenario_patient)),
      (''exang'', IntCell (exang scenario_patient)),
      (''oldpeak'', FloatCell (oldpeak scenario_patient)),
      (''slope'', IntCell (slope scenario_patient)), (''ca'', FloatCell (ca scenario_patient)),
      (''thal'', IntCell (thal scenario_patient))]"
    by (simp add: scenario_frame_def scenario_patient_def)
  have r: "model_predict (probe_model (rev scenario_frame)) scenario_frame =
             Inl ''unexpected frame''"
    by (simp add: probe_model_def scenario_frame_def)
  have a: "model_predict (probe_model scenario_frame) scenario_frame = Inr (1 # []) \<and>
           model_predict_proba (probe_model scenario_frame) =
             Some (\<lambda>df. if df = scenario_frame then Inr [[0.3, 0.7]] else Inl ''unexpected frame'') \<and>
           (\<lambda>df. if df = scenario_frame then Inr [[0.3, 0.7]] else Inl ''unexpected frame'')
             scenario_frame = Inr ((0.3 # 0.7 # []) # [])"
    by (simp add: probe_model_def)
  have s: "model_predict (probe_model scenario_frame) scenario_frame =
             model_predict (stub_model 1 [0.3, 0.7]) scenario_frame \<and>
           map_option (\<lambda>g. g scenario_frame) (model_predict_proba (probe_model scenario_frame)) =
             map_option (\<lambda>g. g scenario_frame)
               (model_predict_proba (stub_model 1 [0.3, 0.7]))"
    by (simp add: probe_model_def stub_model_def)
  note t = canonical_feature_order [OF h1 h2 h3 h4]
  have c1: "predict (loaded (probe_model (rev scenario_frame))) scenario_patient =
              \<lparr>status_code = 400, content = Detail ''unexpected frame''\<rparr>"
    using r t [where m = "probe_model (rev scenario_frame)" and e = "''unexpected frame''"
        and le = None]
    by (simp add: loaded_def)
  have c2: "predict (loaded (probe_model scenario_frame)) scenario_patient =
              \<lparr>status_code = 200, content = Prediction 1 0.7 ''HIGH''\<rparr> \<and>
            fst (predict_monitored (probe_model scenario_frame) scenario_patient 0 no_metrics) =
              \<lparr>status_code = 200,
               content = MonitoredPrediction 1 (round4 0.7) ''HIGH RISK'' 0\<rparr>"
    using a t [where m = "probe_model scenario_frame" and l = 1 and ls = "[]"
        and f = "\<lambda>df. if df = scenario_frame then Inr [[0.3, 0.7]] else Inl ''unexpected frame''"
        and q = "0.3" and pr = "0.7" and row = "[]" and rows = "[]" and le = None
        and d = 0 and ms = no_metrics]
    by (simp add: loaded_def)
  have c3: "predict (loaded (probe_model scenario_frame)) scenario_patient =
              predict (loaded (stub_model 1 [0.3, 0.7])) scenario_patient"
    using s t [where m = "probe_model scenario_frame" and m' = "stub_model 1 [0.3, 0.7]"
        and le = None]
    by (simp add: loaded_def)
  show ?thesis
    using h1 h2 h3 r a c1 c2 c3 t by simp
qed

section \<open>Decisions\<close>

lemma predict_200:
  assumes "predict st data = \<lparr>status_code = 200, content = Prediction l p r\<rparr>"
  shows "r = (if 1/2 < p then ''HIGH'' else ''LOW'')"
proof (cases "predict_try st data")
  case (Inl e)
  then show ?thesis using assms by (simp add: predict_def)
next
  case (Inr k)
  then have k: "k = Prediction l p r"
    using assms by (simp add: predict_def)
  show ?thesis
    using Inr unfolding k predict_try_def
    by (auto split: sum.splits option.splits if_splits)
qed

lemma predict_monitored_ok:
  assumes "model_outputs m patient = Inr (l, p)"
  shows "predict_monitored m patient d ms =
           (\<lparr>status_code = 200,
             content = MonitoredPrediction l (round4 p)
                         (if 1/2 < p then ''HIGH RISK'' else ''LOW RISK'') d\<rparr>,
            observe d (count_prediction l ms))"
  using assms by (simp add: predict_monitored_def)

text \<open>
  C2. Whenever \<^verbatim>\<open>/predict\<close> answers with a decision, the risk is the high one exactly
  when the probability is strictly above one half: \<open>HIGH\<close> against \<open>LOW\<close> in the
  deployment service, \<open>HIGH RISK\<close> against \<open>LOW RISK\<close> in the monitored one (whose
  response carries the probability rounded to four decimals, the tier being taken from
  the unrounded value). A probability of exactly one half is low.
\<close>

theorem risk_tier_threshold:
  "(predict st data = \<lparr>status_code = 200, content = Prediction l p r\<rparr> \<longrightarrow>
      (r = ''HIGH'') = (1/2 < p) \<and> (r = ''LOW'') = (\<not> 1/2 < p)) \<and>
   (model_outputs m patient = Inr (l', p') \<longrightarrow>
      fst (predict_monitored m patient d ms) =
        \<lparr>status_code = 200,
         content = MonitoredPrediction l' (round4 p')
                     (if 1/2 < p' then ''HIGH RISK'' else ''LOW RISK'') d\<rparr>)"
  using predict_200 [of st data l p r] predict_monitored_ok [of m patient l' p' d ms]
  by (auto split: if_splits)

lemma predict_stub:
  "predict (loaded (stub_model l [q, p])) data =
     \<lparr>status_code = 200,
      content = Prediction l p (if 1/2 < p then ''HIGH'' else ''LOW'')\<rparr>"
  by (simp add: predict_def predict_try_def features_frame loaded_def stub_model_def index_def)

lemma model_outputs_stub: "model_outputs (stub_model l [q, p]) patient = Inr (l, p)"
  by (simp add: model_outputs_def test_df_frame stub_model_def index_def)

theorem risk_tier_threshold_witness:
  "predict (loaded (stub_model 0 [1/2, 1/2])) scenario_patient =
     \<lparr>status_code = 200, content = Prediction 0 (1/2) ''LOW''\<rparr> \<and>
   \<not> (''LOW'' = ''HIGH'') \<and> \<not> (1/2 < (1/2::real)) \<and>
   model_outputs (stub_model 0 [1/2, 1/2]) scenario_patient = Inr (0, 1/2) \<and>
   fst (predict_monitored (stub_model 0 [1/2, 1/2]) scenario_patient 0 no_metrics) =
     \<lparr>status_code = 200, content = MonitoredPrediction 0 (round4 (1/2)) ''LOW RISK'' 0\<rparr>"
proof -
  have h1: "predict (loaded (stub_model 0 [1/2, 1/2])) scenario_patient =
              \<lparr>status_code = 200, content = Prediction 0 (1/2) ''LOW''\<rparr>"
    using predict_stub [of 0 "1/2" "1/2" scenario_patient] by simp
  have h2: "model_outputs (stub_model 0 [1/2, 1/2]) scenario_patient = Inr (0, 1/2)"
    by (rule model_outputs_stub)
  show ?thesis
    using h1 h2
      risk_tier_threshold [of "loaded (stub_model 0 [1/2, 1/2])" scenario_patient 0 "1/2" "''LOW''"
        "stub_model 0 [1/2, 1/2]" scenario_patient 0 "1/2" 0 no_metrics]
    by simp
qed

text \<open>
  C9. The scenario record against a loaded stub whose \<^verbatim>\<open>predict\<close> returns the label 1
  and whose \<^verbatim>\<open>predict_proba\<close> returns the row 0.3, 0.7 is answered with status 200,
  prediction 1, probability 0.7 and risk \<open>HIGH\<close>.
\<close>

theorem end_to_end_scenario:
  "deployment_app json_numbers (loaded (stub_model 1 [0.3, 0.7])) (PostPredict scenario_body) =
     \<lparr>status_code = 200, content = Prediction 1 0.7 ''HIGH''\<rparr>"
  by (simp add: deployment_app_def validate_scenario predict_stub)


section \<open>Validation at the request boundary\<close>

lemma validate_out_of_domain:
  "HeartPatient_validate json_numbers out_of_domain_body =
     Inr (scenario_patient\<lparr>age := - 5, sex := 7, thal := 9\<rparr>)"
  by (simp add: HeartPatient_validate_def HeartPatient_parse_def dict_of_def
      out_of_domain_body_def scenario_patient_def get_int_def get_float_def json_numbers_def)

lemma validate_missing_thal:
  "HeartPatient_validate json_numbers missing_thal_body = Inl [Missing ''thal'']"
  by (simp add: HeartPatient_validate_def HeartPatient_parse_def dict_of_def field_errors_def
      HeartPatient_fields_def missing_thal_body_def scenario_body_def get_int_def
      get_float_def json_numbers_def)

text \<open>
  C6, as the claim states it, fails: a body whose age is negative, whose sex is 7 and
  whose thal is 9 passes validation, reaches the handler and is answered with a decision.
\<close>

theorem out_of_domain_accepted:
  "HeartPatient_validate json_numbers out_of_domain_body =
     Inr (scenario_patient\<lparr>age := - 5, sex := 7, thal := 9\<rparr>) \<and>
   \<not> 0 < age (scenario_patient\<lparr>age := - 5, sex := 7, thal := 9\<rparr>) \<and>
   sex (scenario_patient\<lparr>age := - 5, sex := 7, thal := 9\<rparr>) \<notin> {0, 1} \<and>
   thal (scenario_patient\<lparr>age := - 5, sex := 7, thal := 9\<rparr>) \<notin> {1, 2, 3} \<and>
   deployment_app json_numbers (loaded (stub_model 1 [0.3, 0.7])) (PostPredict out_of_domain_body) =
     \<lparr>status_code = 200, content = Prediction 1 0.7 ''HIGH''\<rparr>"
  by (simp add: validate_out_of_domain deployment_app_def predict_stub scenario_patient_def)

text \<open>
  C6, amended. Each of the thirteen fields is required and is checked on its own against
  its declared type, float or int; the error list names exactly the fields that are
  absent or ill-typed. A body that fails is answered with status 422 by both services
  whatever the model and leaves the metrics as they were, so neither the handler nor the
  frame builder runs. There is no range check: every value of the declared type is
  accepted.
\<close>

theorem validation_checks_types_only:
  "(HeartPatient_validate c b = Inl errs \<longrightarrow>
      errs \<noteq> [] \<and> errs = field_errors c (dict_of b) \<and>
      deployment_app c st (PostPredict b) =
        \<lparr>status_code = 422, content = ValidationDetail errs\<rparr> \<and>
      monitored_routes c m d (PostPredict b) rq ms =
        (Returned \<lparr>status_code = 422, content = ValidationDetail errs\<rparr>, ms)) \<and>
   (HeartPatient_validate c b' = Inr p \<longrightarrow> field_errors c (dict_of b') = []) \<and>
   (Missing n \<in> set (field_errors c dct)) = (n \<in> set column_names \<and> dct n = None) \<and>
   (WrongType n \<in> set (field_errors c dct)) =
     (\<exists>v. dct n = Some v \<and>
        ((n, Int_t) \<in> set HeartPatient_fields \<and> to_int c v = None \<or>
         (n, Float_t) \<in> set HeartPatient_fields \<and> to_float c v = None)) \<and>
   HeartPatient_validate json_numbers
     [(''age'', JNum v1), (''sex'', JInt v2), (''cp'', JInt v3), (''trestbps'', JNum v4),
      (''chol'', JNum v5), (''fbs'', JInt v6), (''restecg'', JInt v7), (''thalach'', JNum v8),
      (''exang'', JInt v9), (''oldpeak'', JNum v10), (''slope'', JInt v11), (''ca'', JNum v12),
      (''thal'', JInt v13)]
   = Inr \<lparr>age = v1, sex = v2, cp = v3, trestbps = v4, chol = v5, fbs = v6, restecg = v7,
          thalach = v8, exang = v9, oldpeak = v10, slope = v11, ca = v12, thal = v13\<rparr>"
proof (intro conjI impI)
  assume a: "HeartPatient_validate c b = Inl errs"
  then show "errs \<noteq> []" and "errs = field_errors c (dict_of b)"
    by (simp_all add: validate_Inl_iff)
  show "deployment_app c st (PostPredict b) =
          \<lparr>status_code = 422, content = ValidationDetail errs\<rparr>"
    using a by (simp add: deployment_app_def)
  show "monitored_routes c m d (PostPredict b) rq ms =
          (Returned \<lparr>status_code = 422, content = ValidationDetail errs\<rparr>, ms)"
    using a by (simp add: monitored_routes_def)
next
  assume "HeartPatient_validate c b' = Inr p"
  then show "field_errors c (dict_of b') = []"
    by (rule validate_Inr_errors)
next
  show "(Missing n \<in> set (field_errors c dct)) = (n \<in> set column_names \<and> dct n = None)"
    by (rule Missing_in_errors)
next
  show "(WrongType n \<in> set (field_errors c dct)) =
     (\<exists>v. dct n = Some v \<and>
        ((n, Int_t) \<in> set HeartPatient_fields \<and> to_int c v = None \<or>
         (n, Float_t) \<in> set HeartPatient_fields \<and> to_float c v = None))"
    by (rule WrongType_in_errors)
next
  show "HeartPatient_validate json_numbers
     [(''age'', JNum v1), (''sex'', JInt v2), (''cp'', JInt v3), (''trestbps'', JNum v4),
      (''chol'', JNum v5), (''fbs'', JInt v6), (''restecg'', JInt v7), (''thalach'', JNum v8),
      (''exang'', JInt v9), (''oldpeak'', JNum v10), (''slope'', JInt v11), (''ca'', JNum v12),
      (''thal'', JInt v13)]
   = Inr \<lparr>age = v1, sex = v2, cp = v3, trestbps = v4, chol = v5, fbs = v6, restecg = v7,
          thalach = v8, exang = v9, oldpeak = v10, slope = v11, ca = v12, thal = v13\<rparr>"
    by (rule any_numbers_accepted)
qed

theorem validation_checks_types_only_witness:
  "HeartPatient_validate json_numbers missing_thal_body = Inl [Missing ''thal''] \<and>
   [Missing ''thal''] = field_errors json_numbers (dict_of missing_thal_body) \<and>
   deployment_app json_numbers (loaded (stub_model 1 [0.3, 0.7])) (PostPredict missing_thal_body) =
     \<lparr>status_code = 422, content = ValidationDetail [Missing ''thal'']\<rparr> \<and>
   monitored_routes json_numbers (stub_model 1 [0.3, 0.7]) 0 (PostPredict missing_thal_body)
       (http_of (PostPredict missing_thal_body)) no_metrics =
     (Returned \<lparr>status_code = 422, content = ValidationDetail [Missing ''thal'']\<rparr>, no_metrics) \<and>
   HeartPatient_validate json_numbers scenario_body = Inr scenario_patient \<and>
   field_errors json_numbers (dict_of scenario_body) = []"
proof -
  have h1: "HeartPatient_validate json_numbers missing_thal_body = Inl [Missing ''thal'']"
    by (rule validate_missing_thal)
  have h2: "HeartPatient_validate json_numbers scenario_body = Inr scenario_patient"
    by (rule validate_scenario)
  show ?thesis
    using h1 h2
      validation_checks_types_only [of json_numbers missing_thal_body "[Missing ''thal'']"
        "loaded (stub_model 1 [0.3, 0.7])" "stub_model 1 [0.3, 0.7]" 0
        "http_of (PostPredict missing_thal_body)" no_metrics scenario_body scenario_patient]
    by simp
qed

section \<open>Model availability\<close>

lemma predict_model_None:
  "model st = None \<Longrightarrow>
   predict st data = \<lparr>status_code = 400, content = Detail (no_attribute ''NoneType'' ''predict'')\<rparr>"
  by (simp add: predict_def predict_try_def features_frame)

lemma load_model_cases:
  "load_model (\<lambda>p. None) path =
     \<lparr>model = None, load_error = Some (''Model file not found: '' @ path)\<rparr>"
  "load_model (\<lambda>p. Some (Inl e)) path = \<lparr>model = None, load_error = Some e\<rparr>"
  "load_model (\<lambda>p. Some (Inr h)) path = \<lparr>model = Some h, load_error = None\<rparr>"
  by (simp_all add: load_model_def)

text \<open>
  C1. With no model loaded the code does not answer as the claim says: after a load that
  failed, for a missing file or for an exception of \<^verbatim>\<open>joblib.load\<close>, the handler of
  the deployment service still runs into \<^verbatim>\<open>model.predict\<close> on \<^verbatim>\<open>None\<close> and every
  request is answered with status 400 and the text of that attribute error, not with 503
  and the recorded reason.
\<close>

theorem predict_without_model:
  "load_error (load_model (\<lambda>p. None) path) = Some (''Model file not found: '' @ path) \<and>
   predict (load_model (\<lambda>p. None) path) data =
     \<lparr>status_code = 400, content = Detail (no_attribute ''NoneType'' ''predict'')\<rparr> \<and>
   load_error (load_model (\<lambda>p. Some (Inl e)) path) = Some e \<and>
   predict (load_model (\<lambda>p. Some (Inl e)) path) data =
     \<lparr>status_code = 400, content = Detail (no_attribute ''NoneType'' ''predict'')\<rparr>"
  by (simp add: load_model_cases predict_model_None)

text \<open>
  C5. The loader of the deployment service records a missing file and a failed
  deserialization and goes on; the monitored service loads with no guard, so the same
  two failures leave its import as an exception and the process does not start.
\<close>

theorem monitored_startup_aborts:
  "monitored_startup (\<lambda>p. None) =
     Inl (''[Errno 2] No such file or directory: '' @ quoted monitored_model_path) \<and>
   monitored_startup (\<lambda>p. Some (Inl e)) = Inl e \<and>
   load_model (\<lambda>p. None) path =
     \<lparr>model = None, load_error = Some (''Model file not found: '' @ path)\<rparr> \<and>
   load_model (\<lambda>p. Some (Inl e)) path = \<lparr>model = None, load_error = Some e\<rparr>"
  by (simp add: monitored_startup_def load_model_cases)

section \<open>The fallback without predict_proba\<close>

lemma predict_fallback:
  assumes "model_predict_proba m = None" and "model_predict m (patient_dict data) = Inr (l # ls)"
  shows "predict \<lparr>model = Some m, load_error = le\<rparr> data =
           \<lparr>status_code = 200,
            content = Prediction l (of_int l) (if 1/2 < (of_int l :: real) then ''HIGH'' else ''LOW'')\<rparr>"
  using assms by (simp add: predict_def predict_try_def features_frame index_def)

lemma model_outputs_no_proba:
  assumes "model_predict_proba m = None" and "model_predict m (patient_dict patient) = Inr (l # ls)"
  shows "predict_monitored m patient d ms =
           (\<lparr>status_code = 400,
             content = Detail (''Prediction error: '' @ no_attribute ''Pipeline'' ''predict_proba'')\<rparr>,
            ms)"
  using assms by (simp add: predict_monitored_def model_outputs_def test_df_frame index_def)

text \<open>
  C4. On a handle without \<^verbatim>\<open>predict_proba\<close> the deployment service falls back on the
  label as the claim says, but the monitored service does not: it calls
  \<^verbatim>\<open>predict_proba\<close> unconditionally and answers with status 400.
\<close>

theorem monitored_has_no_fallback:
  "predict (loaded (label_only_model l)) data =
     \<lparr>status_code = 200,
      content = Prediction l (of_int l) (if 1/2 < (of_int l :: real) then ''HIGH'' else ''LOW'')\<rparr> \<and>
   predict_monitored (label_only_model l) patient d ms =
     (\<lparr>status_code = 400,
       content = Detail (''Prediction error: '' @ no_attribute ''Pipeline'' ''predict_proba'')\<rparr>,
      ms)"
  by (simp add: loaded_def label_only_model_def predict_fallback model_outputs_no_proba)

section \<open>The health probe\<close>

text \<open>
  C8. \<^verbatim>\<open>GET /\<close> is answered with status 200 and a fixed message in every state of the
  deployment service (no model and no error, a model, a recorded load error), whatever
  the loader found, and by the monitored service for every model it has loaded. The
  monitored service does not answer it when the load failed: with the artifact missing,
  or with \<^verbatim>\<open>joblib.load\<close> raising on it, the import ends in that exception and there
  is no process to probe.
\<close>

theorem health_probe_by_state:
  "deployment_app c st GetRoot =
     \<lparr>status_code = 200, content = Message (''Heart Disease Prediction API '' @ check_mark)\<rparr> \<and>
   deployment_process fs path c GetRoot =
     \<lparr>status_code = 200, content = Message (''Heart Disease Prediction API '' @ check_mark)\<rparr> \<and>
   fst (monitored_app c m d GetRoot ms) =
     Returned \<lparr>status_code = 200,
               content = MessageMetrics (''Heart Disease API (MONITORED) '' @ check_mark)
                           ''/metrics''\<rparr> \<and>
   monitored_process (\<lambda>p. None) c d GetRoot ms =
     Inl (''[Errno 2] No such file or directory: '' @ quoted monitored_model_path) \<and>
   monitored_process (\<lambda>p. Some (Inl e)) c d GetRoot ms = Inl e"
  by (simp add: deployment_app_def deployment_process_def read_root_def monitored_app_def
      prometheus_metrics_def monitored_routes_def root_handler_def monitored_process_def
      monitored_startup_def)

section \<open>The metrics middleware\<close>

lemma middleware_outcome:
  "fst (prometheus_metrics request call_next ms) = fst (call_next request (gauge_inc ms))"
  by (cases "call_next request (gauge_inc ms)")
     (simp add: prometheus_metrics_def split: outcome.splits)

lemma middleware_gauge:
  "ACTIVE_USERS (snd (prometheus_metrics request call_next ms)) =
     ACTIVE_USERS (snd (call_next request (gauge_inc ms))) - 1"
  by (cases "call_next request (gauge_inc ms)")
     (simp add: prometheus_metrics_def gauge_dec_def count_request_def split: outcome.splits)

lemma middleware_count:
  "REQUEST_COUNT (snd (prometheus_metrics request call_next ms)) =
     (REQUEST_COUNT (snd (call_next request (gauge_inc ms))))
       ((http_method request, url_path request,
         case fst (call_next request (gauge_inc ms)) of
           Returned response \<Rightarrow> status_code response | Raised e \<Rightarrow> 500) :=
        REQUEST_COUNT (snd (call_next request (gauge_inc ms)))
          (http_method request, url_path request,
           case fst (call_next request (gauge_inc ms)) of
             Returned response \<Rightarrow> status_code response | Raised e \<Rightarrow> 500) + 1)"
  by (cases "call_next request (gauge_inc ms)")
     (simp add: prometheus_metrics_def gauge_dec_def count_request_def split: outcome.splits)

text \<open>
  C7. The middleware raises the gauge before it calls the handler and lowers it after,
  on the path where the handler returns and on the path where it raises; when the handler
  itself leaves the gauge alone, the gauge after the request is what it was before, and
  the response or the exception is passed on unchanged.
\<close>

theorem gauge_restored:
  assumes "ACTIVE_USERS (snd (call_next request (gauge_inc ms))) = ACTIVE_USERS (gauge_inc ms)"
  shows "ACTIVE_USERS (gauge_inc ms) = ACTIVE_USERS ms + 1 \<and>
         ACTIVE_USERS (snd (prometheus_metrics request call_next ms)) = ACTIVE_USERS ms \<and>
         fst (prometheus_metrics request call_next ms) = fst (call_next request (gauge_inc ms))"
  using assms by (simp add: middleware_gauge middleware_outcome gauge_inc_def)

theorem gauge_restored_witness:
  "ACTIVE_USERS (snd (raising (http_of GetRoot) (gauge_inc no_metrics))) =
     ACTIVE_USERS (gauge_inc no_metrics) \<and>
   fst (raising (http_of GetRoot) (gauge_inc no_metrics)) = Raised ''boom'' \<and>
   ACTIVE_USERS (gauge_inc no_metrics) = 1 \<and>
   ACTIVE_USERS (snd (prometheus_metrics (http_of GetRoot) raising no_metrics)) = 0 \<and>
   fst (prometheus_metrics (http_of GetRoot) raising no_metrics) = Raised ''boom''"
proof -
  have h: "ACTIVE_USERS (snd (raising (http_of GetRoot) (gauge_inc no_metrics))) =
             ACTIVE_USERS (gauge_inc no_metrics)"
    by (simp add: raising_def)
  show ?thesis
    using h gauge_restored [where call_next = raising and request = "http_of GetRoot" and ms = no_metrics, OF h]
    by (simp add: raising_def no_metrics_def)
qed

text \<open>
  C10. The middleware adds one to the request counter once per request, at the label of
  the request's method and path and of the status of the response when the handler
  returns, of 500 when it raises, and passes the response or the exception on; every
  other label keeps its count. (The handler is one that leaves the request counter
  alone, as the handlers of the service do.)
\<close>

theorem request_counted_once:
  assumes "REQUEST_COUNT (snd (call_next request (gauge_inc ms))) = REQUEST_COUNT ms"
  shows "REQUEST_COUNT (snd (prometheus_metrics request call_next ms)) =
           (REQUEST_COUNT ms)
             ((http_method request, url_path request,
               case fst (call_next request (gauge_inc ms)) of
                 Returned response \<Rightarrow> status_code response | Raised e \<Rightarrow> 500) :=
              REQUEST_COUNT ms
                (http_method request, url_path request,
                 case fst (call_next request (gauge_inc ms)) of
                   Returned response \<Rightarrow> status_code response | Raised e \<Rightarrow> 500) + 1) \<and>
         fst (prometheus_metrics request call_next ms) = fst (call_next request (gauge_inc ms))"
  using assms by (simp add: middleware_count middleware_outcome)

theorem request_counted_once_witness:
  "REQUEST_COUNT (snd (raising (http_of GetRoot) (gauge_inc no_metrics))) =
     REQUEST_COUNT no_metrics \<and>
   REQUEST_COUNT (snd (prometheus_metrics (http_of GetRoot) raising no_metrics))
     (''GET'', ''/'', 500) = 1 \<and>
   REQUEST_COUNT (snd (prometheus_metrics (http_of GetRoot) raising no_metrics))
     (''GET'', ''/'', 200) = 0 \<and>
   fst (prometheus_metrics (http_of GetRoot) raising no_metrics) = Raised ''boom''"
proof -
  have h: "REQUEST_COUNT (snd (raising (http_of GetRoot) (gauge_inc no_metrics))) =
             REQUEST_COUNT no_metrics"
    by (simp add: raising_def gauge_inc_def)
  show ?thesis
    using h request_counted_once [where call_next = raising and request = "http_of GetRoot" and ms = no_metrics, OF h]
    by (simp add: raising_def no_metrics_def http_of_def)
qed

subsection \<open>The service's own routes behind the middleware\<close>

lemma monitored_routes_gauge:
  "ACTIVE_USERS (snd (monitored_routes c m d req rq ms)) = ACTIVE_USERS ms"
  by (simp add: monitored_routes_def predict_monitored_def observe_def count_prediction_def
      split: request.splits sum.splits prod.splits)

lemma monitored_routes_count:
  "REQUEST_COUNT (snd (monitored_routes c m d req rq ms)) = REQUEST_COUNT ms"
  by (simp add: monitored_routes_def predict_monitored_def observe_def count_prediction_def
      split: request.splits sum.splits prod.splits)

lemma monitored_routes_return:
  "\<exists>r. fst (monitored_routes c m d req rq ms) = Returned r"
  by (simp add: monitored_routes_def split: request.splits sum.splits prod.splits)

lemma monitored_app_gauge:
  "ACTIVE_USERS (snd (monitored_app c m d req ms)) = ACTIVE_USERS ms"
  by (simp add: monitored_app_def middleware_gauge monitored_routes_gauge gauge_inc_def)

lemma monitored_app_count:
  "REQUEST_COUNT (snd (monitored_app c m d req ms)) =
     (REQUEST_COUNT ms)
       ((http_method (http_of req), url_path (http_of req),
         case fst (monitored_app c m d req ms) of
           Returned response \<Rightarrow> status_code response | Raised e \<Rightarrow> 500) :=
        REQUEST_COUNT ms
          (http_method (http_of req), url_path (http_of req),
           case fst (monitored_app c m d req ms) of
             Returned response \<Rightarrow> status_code response | Raised e \<Rightarrow> 500) + 1)"
  unfolding monitored_app_def
  by (simp add: middleware_count middleware_outcome monitored_routes_count gauge_inc_def)

end
